theory Spec2Isabelle
  imports Complex_Main "HOL-Library.Log_Nat" "HOL-Library.AList" "HOL-Library.Multiset"
begin

section \<open>Python values used by load-test.py\<close>

text \<open>
  The load tester is the class \<open>LoadTester\<close> of \<^verbatim>\<open>.context/scripts/load-test.py\<close>.
  Exceptions are values: a function that can raise returns \<open>py_error + 'a\<close>, with
  \<open>Inl\<close> for the exception. \<open>BaseException\<close> stands for the exceptions that are not
  subclasses of Python's \<open>Exception\<close> (task cancellation, keyboard interrupt); its
  argument is the text of the exception.
\<close>

datatype py_error = ValueError | IndexError | ZeroDivisionError | TypeError
  | OverflowError | OSError string | BaseException string

definition then_py :: "py_error + 'a \<Rightarrow> ('a \<Rightarrow> py_error + 'b) \<Rightarrow> py_error + 'b" where
  "then_py r f = (case r of Inl e \<Rightarrow> Inl e | Inr v \<Rightarrow> f v)"

subsection \<open>Floating point\<close>

text \<open>
  A Python float is an IEEE 754 binary64 number. Its value is modelled as a rational, and
  every arithmetic operation rounds the exact result to the nearest number with a 53 bit
  significand, ties to the even significand (\<open>to_double\<close>). A rounded result above
  the largest double (\<open>double_max\<close>) is out of range (\<open>overflows\<close>): the division of two
  ints raises \<open>OverflowError\<close> then, a float product is infinite, and \<open>int\<close> of an
  infinite float raises \<open>OverflowError\<close>. The model tests the range where an operand is
  an argument of any size (the percentile). The other operands are counts of requests,
  lengths of lists (below \<open>2^63\<close>), ratios of counts and clock readings in seconds:
  their results are in range and far from the subnormal numbers.
\<close>

definition pow2 :: "int \<Rightarrow> rat" where
  "pow2 e = (if 0 \<le> e then 2 ^ nat e else 1 / 2 ^ nat (- e))"

definition round_half_even :: "rat \<Rightarrow> int" where
  "round_half_even q =
     (let f = \<lfloor>q\<rfloor>; r = q - of_int f
      in if r < 1 / 2 then f
         else if 1 / 2 < r then f + 1
         else if even f then f else f + 1)"

text \<open>\<open>binade x\<close> is the integer \<open>e\<close> with \<open>2^e \<le> \<bar>x\<bar> < 2^(e+1)\<close>, for \<open>x \<noteq> 0\<close>.\<close>

definition binade :: "rat \<Rightarrow> int" where
  "binade x =
     (let (a, b) = quotient_of \<bar>x\<bar>;
          k = bitlen a - bitlen b
      in if pow2 k \<le> \<bar>x\<bar> then k else k - 1)"

definition to_double :: "rat \<Rightarrow> rat" where
  "to_double x =
     (if x = 0 then 0
      else let u = pow2 (binade x - 52)
           in of_int (round_half_even (x / u)) * u)"

definition double_max :: rat where
  "double_max = (2 ^ 53 - 1) * 2 ^ 971"

definition overflows :: "rat \<Rightarrow> bool" where
  "overflows x \<longleftrightarrow> double_max < \<bar>to_double x\<bar>"

text \<open>\<open>float(n)\<close>, \<open>a / b\<close> on two ints (correctly rounded), and the float operators.\<close>

definition float_of_int :: "int \<Rightarrow> rat" where
  "float_of_int n = to_double (of_int n)"

definition int_truediv :: "int \<Rightarrow> int \<Rightarrow> py_error + rat" where
  "int_truediv a b =
     (if b = 0 then Inl ZeroDivisionError
      else if overflows (of_int a / of_int b) then Inl OverflowError
      else Inr (to_double (of_int a / of_int b)))"

definition float_mul :: "rat \<Rightarrow> rat \<Rightarrow> rat" where
  "float_mul x y = to_double (x * y)"

definition float_sub :: "rat \<Rightarrow> rat \<Rightarrow> rat" where
  "float_sub x y = to_double (x - y)"

definition float_add :: "rat \<Rightarrow> rat \<Rightarrow> rat" where
  "float_add x y = to_double (x + y)"

definition float_truediv :: "rat \<Rightarrow> rat \<Rightarrow> py_error + rat" where
  "float_truediv x y = (if y = 0 then Inl ZeroDivisionError else Inr (to_double (x / y)))"

text \<open>\<open>int(x)\<close> on a float truncates towards zero.\<close>

definition py_int :: "rat \<Rightarrow> int" where
  "py_int x = (if 0 \<le> x then \<lfloor>x\<rfloor> else \<lceil>x\<rceil>)"

subsection \<open>Lists and dictionaries\<close>

text \<open>
  \<open>xs[j]\<close>: a negative index counts from the end, an index out of range raises
  \<open>IndexError\<close>.
\<close>

definition py_getitem :: "'a list \<Rightarrow> int \<Rightarrow> py_error + 'a" where
  "py_getitem xs j =
     (let n = int (length xs); k = (if j < 0 then j + n else j)
      in if 0 \<le> k \<and> k < n then Inr (xs ! nat k) else Inl IndexError)"

text \<open>\<open>xs[-n:]\<close> for a positive literal \<open>n\<close>: the last \<open>n\<close> elements.\<close>

definition py_tail :: "nat \<Rightarrow> 'a list \<Rightarrow> 'a list" where
  "py_tail n xs = drop (length xs - n) xs"

text \<open>\<open>min(xs)\<close> and \<open>max(xs)\<close> raise \<open>ValueError\<close> on an empty list.\<close>

fun py_min :: "'a::linorder list \<Rightarrow> py_error + 'a" where
  "py_min [] = Inl ValueError"
| "py_min (x # xs) = Inr (fold min xs x)"

fun py_max :: "'a::linorder list \<Rightarrow> py_error + 'a" where
  "py_max [] = Inl ValueError"
| "py_max (x # xs) = Inr (fold max xs x)"

text \<open>
  A dict keeps its keys in insertion order: it is an association list with distinct keys.
  \<open>d.get(k, default)\<close> is \<open>dict_get\<close>; the assignment \<open>d[k] = v\<close> is \<open>AList.update k v d\<close>,
  which replaces the value of a key already there and appends a new key at the end.
\<close>

definition dict_get :: "('k \<times> 'v) list \<Rightarrow> 'k \<Rightarrow> 'v \<Rightarrow> 'v" where
  "dict_get d k dflt = (case map_of d k of None \<Rightarrow> dflt | Some v \<Rightarrow> v)"

section \<open>The statistics helpers\<close>

text \<open>
  \<^verbatim>\<open>
  def percentile(self, data, percentile):
      sorted_data = sorted(data)
      index = int((percentile / 100) * len(sorted_data))
      return sorted_data[min(index, len(sorted_data) - 1)]
  \<close>
  The callers pass the int literals 95 and 99, so \<open>percentile / 100\<close> is a division of two
  ints, which raises \<open>OverflowError\<close> when the quotient is out of range; the product with
  the length is a float product, and \<open>int\<close> raises \<open>OverflowError\<close> when the product is
  infinite. \<open>percentile_index\<close> is the second line.
\<close>

definition percentile_index :: "nat \<Rightarrow> int \<Rightarrow> py_error + int" where
  "percentile_index n p =
     then_py (int_truediv p 100) (\<lambda>q.
       if overflows (q * float_of_int (int n)) then Inl OverflowError
       else Inr (py_int (float_mul q (float_of_int (int n)))))"

definition percentile :: "rat list \<Rightarrow> int \<Rightarrow> py_error + rat" where
  "percentile data p =
     (let sorted_data = sort data
      in then_py (percentile_index (length sorted_data) p) (\<lambda>index.
           py_getitem sorted_data (min index (int (length sorted_data) - 1))))"

text \<open>
  \<^verbatim>\<open>
  def count_status_codes(self, status_codes):
      counts = {}
      for code in status_codes:
          counts[code] = counts.get(code, 0) + 1
      return counts
  \<close>
\<close>

definition count_one :: "int \<Rightarrow> (int \<times> nat) list \<Rightarrow> (int \<times> nat) list" where
  "count_one code counts = AList.update code (dict_get counts code 0 + 1) counts"

definition count_status_codes :: "int list \<Rightarrow> (int \<times> nat) list" where
  "count_status_codes status_codes = fold count_one status_codes []"

text \<open>
  The percentile as the specification words it: the element of the ascending data at
  index \<open>min(floor(p/100 * count), count - 1)\<close>, the product taken exactly. It is stated
  here to be compared with \<open>percentile\<close>, which is the code.
\<close>

definition nearest_rank :: "rat list \<Rightarrow> int \<Rightarrow> rat" where
  "nearest_rank xs p =
     sort xs ! min (nat \<lfloor>of_int p / 100 * of_nat (length xs) :: rat\<rfloor>) (length xs - 1)"

section \<open>The LoadTester object\<close>

text \<open>
  The two dictionaries \<open>make_request\<close> builds. Both have \<open>request_id\<close>,
  \<open>response_time\<close> and \<open>timestamp\<close>; a result adds \<open>status_code\<close> and
  \<open>content_length\<close>, an error adds \<open>error\<close>.
\<close>

record outcome_fields =
  request_id :: nat
  response_time :: rat
  timestamp :: string

record result = outcome_fields +
  status_code :: int
  content_length :: nat

record failure = outcome_fields +
  error :: string

datatype outcome = Result result | Failure failure

text \<open>
  The fields \<open>__init__\<close> sets. \<open>duration\<close>, \<open>start_time\<close> and \<open>end_time\<close> start as
  \<open>None\<close>. The command line parses \<open>concurrent\<close>, \<open>total_requests\<close>, \<open>duration\<close> and
  \<open>timeout\<close> with \<open>type=int\<close>: any int can arrive.
\<close>

record tester =
  url :: string
  concurrent :: int
  total_requests :: int
  duration :: "int option"
  timeout :: int
  results :: "result list"
  errors :: "failure list"
  start_time :: "rat option"
  end_time :: "rat option"

definition init :: "string \<Rightarrow> int \<Rightarrow> int \<Rightarrow> int option \<Rightarrow> int \<Rightarrow> tester" where
  "init u c n d t =
     \<lparr>url = u, concurrent = c, total_requests = n, duration = d, timeout = t,
      results = [], errors = [], start_time = None, end_time = None\<rparr>"

section \<open>The issuer: make_request\<close>

text \<open>
  What the network call \<open>session.get\<close> with \<open>response.text()\<close> does is not decided by the
  program: it delivers a response (status and body), or raises \<open>asyncio.TimeoutError\<close>,
  or raises another subclass of \<open>Exception\<close> (\<open>str(e)\<close> is the argument), or the task
  is cancelled or interrupted while it waits, which raises an exception that is not a
  subclass of \<open>Exception\<close>.
\<close>

datatype net_result = Response int string | RaiseTimeoutError | RaiseException string
  | RaiseBaseException string

text \<open>
  \<^verbatim>\<open>
  async def make_request(self, session, request_id):
      start_time = time.time()
      try:
          async with session.get(self.url, timeout=...) as response:
              content = await response.text()
              end_time = time.time()
              result = {'request_id': request_id, 'status_code': response.status,
                        'response_time': end_time - start_time,
                        'content_length': len(content),
                        'timestamp': datetime.now().isoformat()}
              self.results.append(result)
              return result
      except asyncio.TimeoutError:
          end_time = time.time()
          error = {'request_id': request_id, 'error': 'Timeout',
                   'response_time': end_time - start_time, 'timestamp': ...}
          self.errors.append(error)
          return error
      except Exception as e:
          end_time = time.time()
          error = {'request_id': request_id, 'error': str(e), ...}
          self.errors.append(error)
          return error
  \<close>
  The arguments after the request id are what the environment supplies, in the order the
  body reads them: the first clock reading, the behaviour of the network call, the second
  clock reading and the text of \<open>datetime.now().isoformat()\<close>. The function returns the
  value returned or the exception raised, and the object with its lists updated.
\<close>

definition make_request ::
  "tester \<Rightarrow> nat \<Rightarrow> rat \<Rightarrow> net_result \<Rightarrow> rat \<Rightarrow> string \<Rightarrow> (py_error + outcome) \<times> tester" where
  "make_request self rid t0 net t1 stamp =
     (case net of
        Response status content \<Rightarrow>
          (let r = \<lparr>request_id = rid, response_time = float_sub t1 t0, timestamp = stamp,
                    status_code = status, content_length = length content\<rparr>
           in (Inr (Result r), self\<lparr>results := results self @ [r]\<rparr>))
      | RaiseTimeoutError \<Rightarrow>
          (let e = \<lparr>request_id = rid, response_time = float_sub t1 t0, timestamp = stamp,
                    error = ''Timeout''\<rparr>
           in (Inr (Failure e), self\<lparr>errors := errors self @ [e]\<rparr>))
      | RaiseException msg \<Rightarrow>
          (let e = \<lparr>request_id = rid, response_time = float_sub t1 t0, timestamp = stamp,
                    error = msg\<rparr>
           in (Inr (Failure e), self\<lparr>errors := errors self @ [e]\<rparr>))
      | RaiseBaseException msg \<Rightarrow> (Inl (BaseException msg), self))"

text \<open>The network call was interrupted: what it raised is not an \<open>Exception\<close>.\<close>

fun interrupted :: "net_result \<Rightarrow> bool" where
  "interrupted (RaiseBaseException msg) = True"
| "interrupted net = False"

section \<open>The statistics engine and the reports\<close>

text \<open>The nested dictionaries of the statistics, with the keys of the source's \<open>stats\<close>.\<close>

record latency_stats =
  rt_min :: rat
  rt_max :: rat
  rt_mean :: rat
  rt_median :: rat
  p95 :: rat
  p99 :: rat

record size_stats =
  cl_min :: nat
  cl_max :: nat
  cl_mean :: rat

record stats =
  total_time :: rat
  stats_total_requests :: nat
  successful_requests :: nat
  failed_requests :: nat
  success_rate :: rat
  requests_per_second :: rat
  stats_response_time :: latency_stats
  stats_content_length :: size_stats
  status_codes :: "(int \<times> nat) list"

text \<open>
  \<open>a - b\<close> on the two clock fields: a \<open>TypeError\<close> when one is still \<open>None\<close>.
\<close>

definition time_sub :: "rat option \<Rightarrow> rat option \<Rightarrow> py_error + rat" where
  "time_sub a b =
     (case (a, b) of (Some x, Some y) \<Rightarrow> Inr (float_sub x y) | _ \<Rightarrow> Inl TypeError)"

text \<open>
  The two guarded quotients of the dictionary:
  \<^verbatim>\<open>(successful_requests / total_requests) * 100 if total_requests > 0 else 0\<close> and
  \<^verbatim>\<open>successful_requests / total_time if total_time > 0 else 0\<close>.
\<close>

definition success_rate_of :: "nat \<Rightarrow> nat \<Rightarrow> py_error + rat" where
  "success_rate_of n_ok n_total =
     (if 0 < n_total
      then then_py (int_truediv (int n_ok) (int n_total))
             (\<lambda>q. Inr (float_mul q (float_of_int 100)))
      else Inr 0)"

definition requests_per_second_of :: "nat \<Rightarrow> rat \<Rightarrow> py_error + rat" where
  "requests_per_second_of n_ok elapsed =
     (if 0 < elapsed then float_truediv (float_of_int (int n_ok)) elapsed else Inr 0)"

text \<open>
  \<open>calculate_statistics\<close> (lines 167 to 203 of the source). It returns \<open>None\<close> when
  \<open>self.results\<close> is empty, before any arithmetic. \<open>statistics.mean\<close> and
  \<open>statistics.median\<close> are library functions: they are the parameters \<open>mean\<close> and
  \<open>median\<close>. The entries of the dictionary are evaluated in the order of the source.
\<close>

definition calculate_statistics ::
  "(rat list \<Rightarrow> rat) \<Rightarrow> (rat list \<Rightarrow> rat) \<Rightarrow> tester \<Rightarrow> py_error + stats option" where
  "calculate_statistics mean median self =
     (if results self = [] then Inr None
      else
        let response_times = map response_time (results self);
            codes = map status_code (results self);
            content_lengths = map content_length (results self)
        in
        then_py (time_sub (end_time self) (start_time self)) (\<lambda>elapsed.
        let n_total = length (results self) + length (errors self);
            n_ok = length (results self)
        in
        then_py (success_rate_of n_ok n_total) (\<lambda>rate.
        then_py (requests_per_second_of n_ok elapsed) (\<lambda>rps.
        then_py (py_min response_times) (\<lambda>tmin.
        then_py (py_max response_times) (\<lambda>tmax.
        then_py (percentile response_times 95) (\<lambda>q95.
        then_py (percentile response_times 99) (\<lambda>q99.
        then_py (py_min content_lengths) (\<lambda>lmin.
        then_py (py_max content_lengths) (\<lambda>lmax.
          Inr (Some
            \<lparr>total_time = elapsed,
             stats_total_requests = n_total,
             successful_requests = n_ok,
             failed_requests = length (errors self),
             success_rate = rate,
             requests_per_second = rps,
             stats_response_time =
               \<lparr>rt_min = tmin, rt_max = tmax, rt_mean = mean response_times,
                rt_median = median response_times, p95 = q95, p99 = q99\<rparr>,
             stats_content_length =
               \<lparr>cl_min = lmin, cl_max = lmax, cl_mean = mean (map of_nat content_lengths)\<rparr>,
             status_codes = count_status_codes codes\<rparr>)))))))))))"

text \<open>
  \<open>print_report\<close> (lines 218 to 260). What it prints is either the one line that says
  there was no successful request, or the report: the statistics, one row per status code
  (code, count and \<open>count / successful_requests * 100\<close>) in ascending order of the code,
  and the last ten errors. The number formats of the lines are not modelled.
\<close>

datatype printed = NoSuccessfulRequests
  | Report stats "(int \<times> nat \<times> rat) list" "failure list"

fun status_rows :: "nat \<Rightarrow> (int \<times> nat) list \<Rightarrow> py_error + (int \<times> nat \<times> rat) list" where
  "status_rows n [] = Inr []"
| "status_rows n ((code, cnt) # rest) =
     then_py (int_truediv (int cnt) (int n)) (\<lambda>q.
     then_py (status_rows n rest) (\<lambda>rows.
       Inr ((code, cnt, float_mul q (float_of_int 100)) # rows)))"

definition print_report ::
  "(rat list \<Rightarrow> rat) \<Rightarrow> (rat list \<Rightarrow> rat) \<Rightarrow> tester \<Rightarrow> py_error + printed" where
  "print_report mean median self =
     then_py (calculate_statistics mean median self) (\<lambda>st.
       case st of
         None \<Rightarrow> Inr NoSuccessfulRequests
       | Some s \<Rightarrow>
           then_py (status_rows (successful_requests s) (sort_key fst (status_codes s)))
             (\<lambda>rows. Inr (Report s rows (py_tail 10 (errors self)))))"

text \<open>
  \<open>save_report\<close> (lines 262 to 285). Without statistics it returns at once, before the
  file is opened. With statistics it builds the dictionary, opens \<open>output_file\<close> for
  writing and dumps the dictionary to it. Whether the file can be opened and written is
  not decided by the program: \<open>open_w\<close> gives, for a path, the exception \<open>open\<close> or
  \<open>json.dump\<close> raises there (an \<open>OSError\<close>), or \<open>None\<close> when the file is written. The
  function returns the path and the dictionary written, \<open>None\<close> when it wrote nothing, or
  the exception raised.
\<close>

record report_data =
  test_config :: "string \<times> int \<times> int \<times> int option \<times> int"
  report_timestamp :: string
  statistics :: stats
  raw_results :: "result list"
  report_errors :: "failure list"

definition save_report ::
  "(rat list \<Rightarrow> rat) \<Rightarrow> (rat list \<Rightarrow> rat) \<Rightarrow> tester \<Rightarrow> string \<Rightarrow>
   (string \<Rightarrow> py_error option) \<Rightarrow> string \<Rightarrow> py_error + (string \<times> report_data) option" where
  "save_report mean median self output_file open_w stamp =
     then_py (calculate_statistics mean median self) (\<lambda>st.
       case st of
         None \<Rightarrow> Inr None
       | Some s \<Rightarrow>
           (let report =
                  \<lparr>test_config = (url self, concurrent self, total_requests self,
                                  duration self, timeout self),
                   report_timestamp = stamp,
                   statistics = s,
                   raw_results = py_tail 100 (results self),
                   report_errors = py_tail 50 (errors self)\<rparr>
            in case open_w output_file of
                 Some e \<Rightarrow> Inl e
               | None \<Rightarrow> Inr (Some (output_file, report))))"

text \<open>
  An instance of the two library parameters, for the examples: \<open>statistics.mean\<close> as the
  exact mean, correctly rounded, and \<open>statistics.median\<close> as the middle element of the
  sorted data, or half the sum of the two middle ones.
\<close>

definition py_mean :: "rat list \<Rightarrow> rat" where
  "py_mean xs = to_double (sum_list xs / of_nat (length xs))"

definition py_median :: "rat list \<Rightarrow> rat" where
  "py_median xs =
     (let ys = sort xs; n = length ys
      in if odd n then ys ! (n div 2)
         else to_double (float_add (ys ! (n div 2 - 1)) (ys ! (n div 2)) / 2))"

section \<open>The count-bound run\<close>

text \<open>
  \<^verbatim>\<open>
  async def run_count_test(self):
      self.start_time = time.time()
      semaphore = asyncio.Semaphore(self.concurrent)
      connector = aiohttp.TCPConnector(limit=self.concurrent * 2)
      async with aiohttp.ClientSession(connector=connector) as session:
          tasks = []
          for i in range(self.total_requests):
              task = asyncio.create_task(self.make_request(session, i))
              tasks.append(task)
              if len(tasks) >= self.concurrent:
                  await asyncio.gather(*tasks[:self.concurrent])
                  tasks = tasks[self.concurrent:]
              # progress line every 100 requests
          if tasks:
              await asyncio.gather(*tasks)
      self.end_time = time.time()
  \<close>
  The run is a transition system. Its state holds the object, the next value of \<open>i\<close>,
  the list \<open>tasks\<close>, where the driver stands, and for each task made whether its body has
  not started (\<open>c_scheduled\<close>) or is inside \<open>make_request\<close> (\<open>c_executing\<close>, with the
  first clock reading of the body); \<open>c_created\<close> is the history of the request ids given to
  \<open>make_request\<close>, in order. An event is one move of the event loop: the driver runs to
  its next \<open>await\<close>, a task starts its body, or the network call of a task ends and the
  task returns. A schedule is a list of events; an event that cannot happen in a state has
  no successor. The event loop runs one coroutine at a time: a task moves only while the
  driver is suspended in a \<open>gather\<close>. \<open>gather\<close> of no task returns a finished future,
  which the driver awaits without suspending; \<open>gather\<close> of some tasks suspends the driver
  until all of them are done. \<open>asyncio.Semaphore\<close> raises \<open>ValueError\<close> for a negative
  value. The semaphore is never acquired in this run. The progress line only reads the
  state. When a task raises an exception that \<open>make_request\<close> does not catch (the call
  was interrupted), \<open>gather\<close> raises it in the driver and the run is aborted.
\<close>

datatype count_pc = Creating | GatherBatch | GatherRest | Done | Aborted py_error

record count_run =
  c_self :: tester
  c_next :: nat
  c_tasks :: "nat list"
  c_pc :: count_pc
  c_scheduled :: "nat list"
  c_executing :: "(nat \<times> rat) list"
  c_created :: "nat list"

datatype count_event = Driver rat | Start nat rat | Finish nat net_result rat string

definition count_init :: "tester \<Rightarrow> rat \<Rightarrow> py_error + count_run" where
  "count_init self t0 =
     (if concurrent self < 0 then Inl ValueError
      else Inr \<lparr>c_self = self\<lparr>start_time := Some t0\<rparr>, c_next = 0, c_tasks = [],
                c_pc = Creating, c_scheduled = [], c_executing = [], c_created = []\<rparr>)"

definition task_done :: "count_run \<Rightarrow> nat \<Rightarrow> bool" where
  "task_done s k = (k \<notin> set (c_scheduled s) \<and> k \<notin> fst ` set (c_executing s))"

definition count_driver :: "rat \<Rightarrow> count_run \<Rightarrow> count_run option" where
  "count_driver t s =
     (case c_pc s of
        Creating \<Rightarrow>
          if int (c_next s) < total_requests (c_self s) then
            let i = c_next s;
                s' = s\<lparr>c_tasks := c_tasks s @ [i], c_scheduled := c_scheduled s @ [i],
                       c_created := c_created s @ [i], c_next := Suc i\<rparr>
            in if concurrent (c_self s) \<le> int (length (c_tasks s'))
               then if take (nat (concurrent (c_self s))) (c_tasks s') = []
                    then Some (s'\<lparr>c_tasks := drop (nat (concurrent (c_self s))) (c_tasks s')\<rparr>)
                    else Some (s'\<lparr>c_pc := GatherBatch\<rparr>)
               else Some s'
          else if c_tasks s \<noteq> [] then Some (s\<lparr>c_pc := GatherRest\<rparr>)
          else Some (s\<lparr>c_pc := Done, c_self := (c_self s)\<lparr>end_time := Some t\<rparr>\<rparr>)
      | GatherBatch \<Rightarrow>
          if list_all (task_done s) (take (nat (concurrent (c_self s))) (c_tasks s))
          then Some (s\<lparr>c_tasks := drop (nat (concurrent (c_self s))) (c_tasks s),
                       c_pc := Creating\<rparr>)
          else None
      | GatherRest \<Rightarrow>
          if list_all (task_done s) (c_tasks s)
          then Some (s\<lparr>c_pc := Done, c_self := (c_self s)\<lparr>end_time := Some t\<rparr>\<rparr>)
          else None
      | Done \<Rightarrow> None
      | Aborted e \<Rightarrow> None)"

definition suspended :: "count_run \<Rightarrow> bool" where
  "suspended s \<longleftrightarrow> c_pc s = GatherBatch \<or> c_pc s = GatherRest"

definition count_step :: "count_event \<Rightarrow> count_run \<Rightarrow> count_run option" where
  "count_step ev s =
     (case ev of
        Driver t \<Rightarrow> count_driver t s
      | Start k t0 \<Rightarrow>
          if suspended s \<and> k \<in> set (c_scheduled s)
          then Some (s\<lparr>c_scheduled := remove1 k (c_scheduled s),
                       c_executing := c_executing s @ [(k, t0)]\<rparr>)
          else None
      | Finish k net t1 stamp \<Rightarrow>
          if suspended s then
            (case map_of (c_executing s) k of
               None \<Rightarrow> None
             | Some t0 \<Rightarrow>
                 (case make_request (c_self s) k t0 net t1 stamp of
                    (Inr out, self') \<Rightarrow>
                      Some (s\<lparr>c_self := self',
                              c_executing := filter (\<lambda>e. fst e \<noteq> k) (c_executing s)\<rparr>)
                  | (Inl e, self') \<Rightarrow>
                      Some (s\<lparr>c_self := self',
                              c_executing := filter (\<lambda>e. fst e \<noteq> k) (c_executing s),
                              c_pc := Aborted e\<rparr>)))
          else None)"

fun count_exec :: "count_event list \<Rightarrow> count_run \<Rightarrow> count_run option" where
  "count_exec [] s = Some s"
| "count_exec (ev # evs) s =
     (case count_step ev s of None \<Rightarrow> None | Some s' \<Rightarrow> count_exec evs s')"

section \<open>The duration-bound run\<close>

text \<open>
  \<^verbatim>\<open>
  async def worker(self, session, semaphore, request_queue):
      while True:
          try:
              request_id = await asyncio.wait_for(request_queue.get(), timeout=1.0)
              async with semaphore:
                  await self.make_request(session, request_id)
              request_queue.task_done()
          except asyncio.TimeoutError:
              break
          except Exception as e:
              print(f"Worker error: {e}")
              break

  async def run_duration_test(self):
      self.start_time = time.time()
      end_time = self.start_time + self.duration
      semaphore = asyncio.Semaphore(self.concurrent)
      request_queue = asyncio.Queue()
      connector = aiohttp.TCPConnector(limit=self.concurrent * 2)
      async with aiohttp.ClientSession(connector=connector) as session:
          workers = [asyncio.create_task(self.worker(session, semaphore, request_queue))
                     for _ in range(self.concurrent)]
          request_id = 0
          try:
              while time.time() < end_time:
                  await request_queue.put(request_id)
                  request_id += 1
                  # progress line every 100 requests
              await request_queue.join()
          finally:
              for worker in workers:
                  worker.cancel()
              await asyncio.gather(*workers, return_exceptions=True)
      self.end_time = time.time()
  \<close>
  A worker waits in \<open>request_queue.get()\<close>, or holds a request id and waits for the
  semaphore, or is inside \<open>make_request\<close> (with the first clock reading of the body), or
  has left its loop. The state of the run holds the object, the local \<open>end_time\<close>
  (\<open>d_deadline\<close>), the clock, where the driver stands, \<open>request_id\<close>, the queue with its
  counter of unfinished items, the value of the semaphore and the workers; \<open>d_admitted\<close> is
  the history of the ids put into the queue, each with the clock reading of the loop test
  that let it in. The events: the clock moves (to any reading), the driver evaluates its
  loop test once (and puts an id, or goes on to \<open>join\<close>), a worker takes an id from the
  queue, a waiting worker times out on the empty queue, a worker acquires the semaphore, the
  network call of a worker ends and the worker releases the semaphore and calls
  \<open>task_done\<close>, and \<open>join\<close> returns and the workers are cancelled. The workers move
  only while the driver is suspended in \<open>join\<close>: the event loop runs one coroutine at a
  time, and the driver does not suspend between two loop tests, since \<open>put\<close> on a queue
  without a bound returns without suspending and nothing else in the loop awaits.
  \<open>task_done\<close> raises \<open>ValueError\<close> when no item is unfinished, which the worker
  catches and leaves its loop. When the call of a worker raises an exception that
  \<open>make_request\<close> does not catch (the call was interrupted), the worker releases the
  semaphore and ends with that exception, without \<open>task_done\<close>; \<open>d_interrupted\<close> is
  the history of the request ids lost so.
\<close>

datatype worker = Getting | Acquiring nat | Requesting nat rat | Exited

datatype duration_phase = Admitting | Joining | Finished

record duration_run =
  d_self :: tester
  d_deadline :: rat
  d_now :: rat
  d_phase :: duration_phase
  d_request_id :: nat
  d_queue :: "nat list"
  d_unfinished :: nat
  d_semaphore :: nat
  d_workers :: "worker list"
  d_admitted :: "(nat \<times> rat) list"
  d_interrupted :: "nat list"

datatype duration_event = Tick rat | Loop | Get nat | GetTimeout nat | Acquire nat
  | Complete nat net_result string | Join

definition duration_init :: "tester \<Rightarrow> int \<Rightarrow> rat \<Rightarrow> py_error + duration_run" where
  "duration_init self d t0 =
     (if concurrent self < 0 then Inl ValueError
      else Inr \<lparr>d_self = self\<lparr>start_time := Some t0\<rparr>,
                d_deadline = float_add t0 (float_of_int d),
                d_now = t0, d_phase = Admitting, d_request_id = 0, d_queue = [],
                d_unfinished = 0, d_semaphore = nat (concurrent self),
                d_workers = replicate (nat (concurrent self)) Getting,
                d_admitted = [], d_interrupted = []\<rparr>)"

definition duration_loop :: "duration_run \<Rightarrow> duration_run option" where
  "duration_loop s =
     (if d_phase s \<noteq> Admitting then None
      else if d_now s < d_deadline s
      then Some (s\<lparr>d_queue := d_queue s @ [d_request_id s],
                   d_unfinished := Suc (d_unfinished s),
                   d_admitted := d_admitted s @ [(d_request_id s, d_now s)],
                   d_request_id := Suc (d_request_id s)\<rparr>)
      else Some (s\<lparr>d_phase := Joining\<rparr>))"

text \<open>The worker \<open>w\<close>, when it exists and the driver is suspended in \<open>join\<close>.\<close>

definition worker_at :: "duration_run \<Rightarrow> nat \<Rightarrow> worker option" where
  "worker_at s w =
     (if d_phase s = Joining \<and> w < length (d_workers s) then Some (d_workers s ! w)
      else None)"

definition duration_step :: "duration_event \<Rightarrow> duration_run \<Rightarrow> duration_run option" where
  "duration_step ev s =
     (case ev of
        Tick t \<Rightarrow> Some (s\<lparr>d_now := t\<rparr>)
      | Loop \<Rightarrow> duration_loop s
      | Get w \<Rightarrow>
          (case (worker_at s w, d_queue s) of
             (Some Getting, x # q) \<Rightarrow>
               Some (s\<lparr>d_workers := (d_workers s)[w := Acquiring x], d_queue := q\<rparr>)
           | _ \<Rightarrow> None)
      | GetTimeout w \<Rightarrow>
          (case (worker_at s w, d_queue s) of
             (Some Getting, []) \<Rightarrow> Some (s\<lparr>d_workers := (d_workers s)[w := Exited]\<rparr>)
           | _ \<Rightarrow> None)
      | Acquire w \<Rightarrow>
          (case worker_at s w of
             Some (Acquiring x) \<Rightarrow>
               if 0 < d_semaphore s
               then Some (s\<lparr>d_workers := (d_workers s)[w := Requesting x (d_now s)],
                            d_semaphore := d_semaphore s - 1\<rparr>)
               else None
           | _ \<Rightarrow> None)
      | Complete w net stamp \<Rightarrow>
          (case worker_at s w of
             Some (Requesting x t0) \<Rightarrow>
               (case make_request (d_self s) x t0 net (d_now s) stamp of
                  (Inr out, self') \<Rightarrow>
                    if 0 < d_unfinished s
                    then Some (s\<lparr>d_self := self',
                                 d_workers := (d_workers s)[w := Getting],
                                 d_semaphore := Suc (d_semaphore s),
                                 d_unfinished := d_unfinished s - 1\<rparr>)
                    else Some (s\<lparr>d_self := self',
                                 d_workers := (d_workers s)[w := Exited],
                                 d_semaphore := Suc (d_semaphore s)\<rparr>)
                | (Inl e, self') \<Rightarrow>
                    Some (s\<lparr>d_self := self',
                            d_workers := (d_workers s)[w := Exited],
                            d_semaphore := Suc (d_semaphore s),
                            d_interrupted := d_interrupted s @ [x]\<rparr>))
           | _ \<Rightarrow> None)
      | Join \<Rightarrow>
          if d_phase s = Joining \<and> d_unfinished s = 0
          then Some (s\<lparr>d_phase := Finished,
                       d_workers := map (\<lambda>w. Exited) (d_workers s),
                       d_self := (d_self s)\<lparr>end_time := Some (d_now s)\<rparr>\<rparr>)
          else None)"

fun duration_exec :: "duration_event list \<Rightarrow> duration_run \<Rightarrow> duration_run option" where
  "duration_exec [] s = Some s"
| "duration_exec (ev # evs) s =
     (case duration_step ev s of None \<Rightarrow> None | Some s' \<Rightarrow> duration_exec evs s')"

section \<open>The entry: main and run\<close>

text \<open>
  \<open>main\<close> (lines 306 to 339) parses the arguments, puts \<open>http://\<close> before a URL that
  starts with neither \<open>http://\<close> nor \<open>https://\<close>, builds the object and calls \<open>run\<close>.
  It checks nothing else. \<open>run\<close> (lines 287 to 304) chooses the duration-bound run when
  \<open>self.duration\<close> is true (neither \<open>None\<close> nor 0) and the count-bound run otherwise.
  \<open>run_begin\<close> is \<open>run\<close> up to the first \<open>await\<close> of the chosen test: the exception that
  ends the run there, or the first state of the run.
\<close>

definition main :: "string \<Rightarrow> int \<Rightarrow> int \<Rightarrow> int option \<Rightarrow> int \<Rightarrow> tester" where
  "main u c n d t =
     init (if take 7 u = ''http://'' \<or> take 8 u = ''https://'' then u else ''http://'' @ u)
       c n d t"

datatype run_state = CountRun count_run | DurationRun duration_run

definition run_begin :: "tester \<Rightarrow> rat \<Rightarrow> py_error + run_state" where
  "run_begin self t0 =
     (case duration self of
        Some d \<Rightarrow>
          if d \<noteq> 0 then then_py (duration_init self d t0) (\<lambda>s. Inr (DurationRun s))
          else then_py (count_init self t0) (\<lambda>s. Inr (CountRun s))
      | None \<Rightarrow> then_py (count_init self t0) (\<lambda>s. Inr (CountRun s)))"

section \<open>What the claims observe\<close>

text \<open>
  The request ids of the outcomes recorded in the object, successes first; the number of
  invocations of \<open>make_request\<close> that are executing in a state of either run; and the
  request ids the workers of a duration-bound run hold (taken from the queue, outcome not
  yet recorded).
\<close>

definition outcome_ids :: "tester \<Rightarrow> nat list" where
  "outcome_ids self = map request_id (results self) @ map request_id (errors self)"

definition count_in_flight :: "count_run \<Rightarrow> nat" where
  "count_in_flight s = length (c_executing s)"

fun requesting :: "worker \<Rightarrow> bool" where
  "requesting (Requesting x t0) = True"
| "requesting w = False"

definition in_flight :: "duration_run \<Rightarrow> nat" where
  "in_flight s = length (filter requesting (d_workers s))"

fun holding :: "worker \<Rightarrow> nat multiset" where
  "holding (Acquiring x) = {#x#}"
| "holding (Requesting x t0) = {#x#}"
| "holding w = {#}"

definition in_hand :: "duration_run \<Rightarrow> nat multiset" where
  "in_hand s = sum_list (map holding (d_workers s))"

section \<open>Example data\<close>

text \<open>
  Two objects as a finished run leaves them: ten requests of which seven succeeded with
  status 200 and three timed out, and three requests that all timed out.
\<close>

definition seven_of_ten :: tester where
  "seven_of_ten =
     (init ''http://host'' 5 10 None 30)
       \<lparr>results := map (\<lambda>k. \<lparr>request_id = k, response_time = 1 / 4, timestamp = ''t'',
                               status_code = 200, content_length = 5\<rparr>) [0..<7],
        errors := map (\<lambda>k. \<lparr>request_id = k, response_time = 30, timestamp = ''t'',
                              error = ''Timeout''\<rparr>) [7..<10],
        start_time := Some 0, end_time := Some 31\<rparr>"

definition timeouts_only :: tester where
  "timeouts_only =
     (init ''http://host'' 5 3 None 30)
       \<lparr>errors := map (\<lambda>k. \<lparr>request_id = k, response_time = 30, timestamp = ''t'',
                              error = ''Timeout''\<rparr>) [0..<3],
        start_time := Some 0, end_time := Some 30\<rparr>"

section \<open>Facts about floating point\<close>

lemma pow2_powi: "pow2 e = 2 powi e"
proof (cases "0 \<le> e")
  case True
  then show ?thesis by (simp add: pow2_def power_int_def)
next
  case False
  have "(1::rat) / 2 ^ nat (- e) = inverse 2 ^ nat (- e)"
    by (simp only: inverse_eq_divide power_one_over)
  with False show ?thesis by (simp only: pow2_def power_int_def if_False)
qed

lemma pow2_pos: "0 < pow2 e"
  by (simp add: pow2_powi)

lemma pow2_add: "pow2 (a + b) = pow2 a * pow2 b"
  by (simp add: pow2_powi power_int_add)

lemma pow2_diff: "pow2 (a - b) = pow2 a / pow2 b"
  by (simp add: pow2_powi power_int_diff)

lemma pow2_nat: "pow2 (int n) = 2 ^ n"
  by (simp add: pow2_def)

lemma pow2_mono: "a \<le> b \<Longrightarrow> pow2 a \<le> pow2 b"
  by (simp add: pow2_powi power_int_increasing)

lemma quotient_of_abs_pos:
  assumes "x \<noteq> 0" and "quotient_of \<bar>x\<bar> = (a, b)"
  shows "0 < a" and "0 < b" and "\<bar>x\<bar> = of_int a / of_int b"
proof -
  show b: "0 < b" using assms(2) by (rule quotient_of_denom_pos)
  show eq: "\<bar>x\<bar> = of_int a / of_int b" using assms(2) by (rule quotient_of_div)
  have "0 < \<bar>x\<bar>" using assms(1) by simp
  with eq b show "0 < a" by (simp add: zero_less_divide_iff)
qed

lemma binade_lower:
  assumes "x \<noteq> 0"
  shows "pow2 (binade x) \<le> \<bar>x\<bar>"
proof -
  obtain a b where q: "quotient_of \<bar>x\<bar> = (a, b)" by (cases "quotient_of \<bar>x\<bar>")
  note p = quotient_of_abs_pos [OF assms q]
  let ?k = "bitlen a - bitlen b"
  show ?thesis
  proof (cases "pow2 ?k \<le> \<bar>x\<bar>")
    case True
    then show ?thesis by (simp add: binade_def q)
  next
    case False
    then have e: "binade x = ?k - 1" by (simp add: binade_def q)
    have la: "1 \<le> bitlen a" using p(1) by (simp add: bitlen_alt_def)
    have a: "(2::rat) ^ nat (bitlen a - 1) \<le> of_int a"
    proof -
      have "(2::int) ^ nat (bitlen a - 1) \<le> a" using bitlen_bounds [OF p(1)] by simp
      then have "of_int ((2::int) ^ nat (bitlen a - 1)) \<le> (of_int a :: rat)"
        by (simp only: of_int_le_iff)
      then show ?thesis by simp
    qed
    have b: "(of_int b :: rat) \<le> 2 ^ nat (bitlen b)"
    proof -
      have "b \<le> (2::int) ^ nat (bitlen b)" using bitlen_bounds [OF p(2)] by simp
      then have "(of_int b :: rat) \<le> of_int ((2::int) ^ nat (bitlen b))"
        by (simp only: of_int_le_iff)
      then show ?thesis by simp
    qed
    have "pow2 (?k - 1) = pow2 (bitlen a - 1) / pow2 (bitlen b)"
      by (simp add: pow2_diff [symmetric] algebra_simps)
    also have "\<dots> = 2 ^ nat (bitlen a - 1) / 2 ^ nat (bitlen b)"
      using la bitlen_nonneg [of b] by (simp add: pow2_def)
    also have "\<dots> \<le> of_int a / of_int b"
      using a b p(1,2) by (intro frac_le) simp_all
    finally show ?thesis using e p(3) by simp
  qed
qed

lemma round_half_even_err: "\<bar>of_int (round_half_even q) - q\<bar> \<le> 1 / 2"
proof -
  have "of_int \<lfloor>q\<rfloor> \<le> q" "q < of_int \<lfloor>q\<rfloor> + 1" by linarith+
  then show ?thesis
    by (auto simp: round_half_even_def Let_def abs_le_iff)
qed

lemma to_double_err: "\<bar>to_double x - x\<bar> \<le> \<bar>x\<bar> / 2 ^ 53"
proof (cases "x = 0")
  case True
  then show ?thesis by (simp add: to_double_def)
next
  case False
  let ?u = "pow2 (binade x - 52)"
  have u: "0 < ?u" by (rule pow2_pos)
  have "to_double x - x = (of_int (round_half_even (x / ?u)) - x / ?u) * ?u"
    using False u by (simp add: to_double_def Let_def algebra_simps)
  then have "\<bar>to_double x - x\<bar> = \<bar>of_int (round_half_even (x / ?u)) - x / ?u\<bar> * ?u"
    using u by (simp add: abs_mult)
  also have "\<dots> \<le> 1 / 2 * ?u"
    using round_half_even_err [of "x / ?u"] u by (intro mult_right_mono) simp_all
  also have "1 / 2 * ?u = pow2 (binade x) / 2 ^ 53"
  proof -
    have "?u = pow2 (binade x) / pow2 52" by (rule pow2_diff)
    also have "pow2 52 = 2 ^ 52" by (simp add: pow2_def)
    finally show ?thesis by simp
  qed
  also have "\<dots> \<le> \<bar>x\<bar> / 2 ^ 53"
    using binade_lower [OF False] by (intro divide_right_mono) simp_all
  finally show ?thesis .
qed

lemma to_double_bound: "\<bar>to_double x\<bar> \<le> \<bar>x\<bar> * (1 + 1 / 2 ^ 53)"
proof -
  have "\<bar>to_double x\<bar> \<le> \<bar>x\<bar> + \<bar>to_double x - x\<bar>" by simp
  also have "\<dots> \<le> \<bar>x\<bar> + \<bar>x\<bar> / 2 ^ 53" using to_double_err [of x] by simp
  finally show ?thesis by (simp add: algebra_simps)
qed

lemma to_double_nonneg: "0 \<le> x \<Longrightarrow> 0 \<le> to_double x"
  by (auto simp: to_double_def Let_def pow2_pos less_imp_le round_half_even_def
      intro!: mult_nonneg_nonneg divide_nonneg_pos)

lemma double_max_large: "2 ^ 101 \<le> double_max"
proof -
  have "(2::rat) ^ 101 \<le> 2 ^ 971" by (rule power_increasing) simp_all
  also have "\<dots> \<le> (2 ^ 53 - 1) * 2 ^ 971" by simp
  finally show ?thesis by (simp add: double_max_def)
qed

lemma not_overflows:
  assumes "\<bar>x\<bar> \<le> 2 ^ 100"
  shows "\<not> overflows x"
proof -
  have "\<bar>to_double x\<bar> \<le> \<bar>x\<bar> * (1 + 1 / 2 ^ 53)" by (rule to_double_bound)
  also have "\<dots> \<le> 2 ^ 100 * (1 + 1 / 2 ^ 53)"
    using assms by (intro mult_right_mono) simp_all
  also have "\<dots> \<le> 2 ^ 101" by simp
  also note double_max_large
  finally show ?thesis by (simp add: overflows_def)
qed

text \<open>The error of a rounded product of two rounded factors.\<close>

lemma rounded_product_err:
  assumes a: "\<bar>a - A\<bar> \<le> A / 2 ^ 53" and b: "\<bar>b - B\<bar> \<le> B / 2 ^ 53"
    and A: "0 \<le> A" and B: "0 \<le> B"
  shows "\<bar>to_double (a * b) - A * B\<bar> \<le> A * B / 2 ^ 51"
proof -
  let ?e = "1 / (2::rat) ^ 53"
  have e: "0 \<le> ?e" by simp
  have b': "\<bar>b\<bar> \<le> B * (1 + ?e)"
  proof -
    have "\<bar>b\<bar> \<le> \<bar>B\<bar> + \<bar>b - B\<bar>" by simp
    also have "\<dots> \<le> B + B * ?e" using b B by simp
    finally show ?thesis by (simp add: algebra_simps)
  qed
  have "a * b - A * B = (a - A) * b + A * (b - B)" by (simp add: algebra_simps)
  then have "\<bar>a * b - A * B\<bar> \<le> \<bar>a - A\<bar> * \<bar>b\<bar> + A * \<bar>b - B\<bar>"
    using A by (metis abs_mult abs_of_nonneg abs_triangle_ineq)
  also have "\<dots> \<le> (A * ?e) * (B * (1 + ?e)) + A * (B * ?e)"
    using a b b' A B by (intro add_mono mult_mono mult_left_mono) simp_all
  also have "\<dots> = A * B * (2 * ?e + ?e * ?e)" by (simp add: algebra_simps)
  finally have ab: "\<bar>a * b - A * B\<bar> \<le> A * B * (2 * ?e + ?e * ?e)" .
  have AB: "0 \<le> A * B" using A B by simp
  have "\<bar>a * b\<bar> \<le> \<bar>A * B\<bar> + \<bar>a * b - A * B\<bar>" by simp
  also have "\<dots> \<le> A * B + A * B * (2 * ?e + ?e * ?e)" using ab AB by simp
  finally have ab': "\<bar>a * b\<bar> \<le> A * B * (1 + 2 * ?e + ?e * ?e)" by (simp add: algebra_simps)
  have "\<bar>to_double (a * b) - A * B\<bar> \<le> \<bar>to_double (a * b) - a * b\<bar> + \<bar>a * b - A * B\<bar>"
    by simp
  also have "\<dots> \<le> \<bar>a * b\<bar> * ?e + A * B * (2 * ?e + ?e * ?e)"
    using to_double_err [of "a * b"] ab by simp
  also have "\<dots> \<le> A * B * (1 + 2 * ?e + ?e * ?e) * ?e + A * B * (2 * ?e + ?e * ?e)"
    using mult_right_mono [OF ab' e] by simp
  also have "\<dots> = A * B * ((1 + 2 * ?e + ?e * ?e) * ?e + (2 * ?e + ?e * ?e))"
    by (simp add: algebra_simps)
  also have "\<dots> \<le> A * B * (1 / 2 ^ 51)"
    using AB by (intro mult_left_mono) simp_all
  finally show ?thesis by simp
qed

lemma percentile_index_value:
  assumes p: "0 \<le> p" "p \<le> 100" and n: "n < 2 ^ 63"
  shows "percentile_index n p =
           Inr \<lfloor>to_double (to_double (of_int p / 100) * float_of_int (int n))\<rfloor>"
    and "0 \<le> to_double (to_double (of_int p / 100) * float_of_int (int n))"
proof -
  let ?A = "of_int p / 100 :: rat" and ?B = "of_nat n :: rat"
  let ?q = "to_double ?A" and ?nf = "float_of_int (int n)"
  let ?r = "to_double (?q * ?nf)"
  have A: "0 \<le> ?A" "?A \<le> 1" using p by simp_all
  have B: "0 \<le> ?B" "?B < 2 ^ 63"
  proof -
    show "0 \<le> ?B" by simp
    have "?B < of_nat (2 ^ 63)" using n by (simp only: of_nat_less_iff)
    then show "?B < 2 ^ 63" by simp
  qed
  have nf: "?nf = to_double ?B" by (simp add: float_of_int_def)
  have q0: "0 \<le> ?q" using A(1) by (rule to_double_nonneg)
  have nf0: "0 \<le> ?nf" unfolding nf using B(1) by (rule to_double_nonneg)
  have no1: "\<not> overflows ?A" using A by (intro not_overflows) simp
  have q2: "?q \<le> 2"
  proof -
    have "\<bar>?q\<bar> \<le> \<bar>?A\<bar> * (1 + 1 / 2 ^ 53)" by (rule to_double_bound)
    also have "\<dots> \<le> 1 * (1 + 1 / 2 ^ 53)" using A by (intro mult_right_mono) simp_all
    finally show ?thesis by simp
  qed
  have nf2: "?nf \<le> 2 ^ 64"
  proof -
    have "\<bar>?nf\<bar> \<le> \<bar>?B\<bar> * (1 + 1 / 2 ^ 53)" unfolding nf by (rule to_double_bound)
    also have "\<dots> \<le> 2 ^ 63 * (1 + 1 / 2 ^ 53)" using B by (intro mult_right_mono) simp_all
    finally show ?thesis by simp
  qed
  have "?q * ?nf \<le> 2 * 2 ^ 64" using q2 nf2 q0 nf0 by (intro mult_mono) simp_all
  then have no2: "\<not> overflows (?q * ?nf)" using q0 nf0 by (intro not_overflows) simp
  show r0: "0 \<le> ?r" using q0 nf0 by (intro to_double_nonneg) simp
  show "percentile_index n p = Inr \<lfloor>?r\<rfloor>"
    using no1 no2 r0
    by (simp add: percentile_index_def int_truediv_def then_py_def float_mul_def py_int_def)
qed

lemma percentile_index_near_exact:
  assumes p: "0 \<le> p" "p \<le> 100" and n: "n < 2 ^ 44"
  shows "\<exists>i. percentile_index n p = Inr i \<and> 0 \<le> i \<and>
             (i = p * int n div 100 \<or> i = p * int n div 100 - 1 \<and> 100 dvd p * int n)"
proof -
  let ?A = "of_int p / 100 :: rat" and ?B = "of_nat n :: rat"
  let ?q = "to_double ?A" and ?nf = "float_of_int (int n)"
  let ?r = "to_double (?q * ?nf)"
  let ?m = "p * int n div 100" and ?f = "p * int n mod 100"
  have A: "0 \<le> ?A" "?A \<le> 1" using p by simp_all
  have B: "0 \<le> ?B" "?B < 2 ^ 44"
  proof -
    show "0 \<le> ?B" by simp
    have "?B < of_nat (2 ^ 44)" using n by (simp only: of_nat_less_iff)
    then show "?B < 2 ^ 44" by simp
  qed
  have nf: "?nf = to_double ?B" by (simp add: float_of_int_def)
  have qe: "\<bar>?q - ?A\<bar> \<le> ?A / 2 ^ 53" using to_double_err [of ?A] A(1) by simp
  have ne: "\<bar>?nf - ?B\<bar> \<le> ?B / 2 ^ 53" unfolding nf using to_double_err [of ?B] by simp
  have "n < 2 ^ 63"
  proof -
    have "(2::nat) ^ 44 \<le> 2 ^ 63" by (rule power_increasing) simp_all
    with n show ?thesis by simp
  qed
  note v = percentile_index_value [OF p this]
  have idx: "percentile_index n p = Inr \<lfloor>?r\<rfloor>" by (rule v(1))
  have r0: "0 \<le> ?r" by (rule v(2))
  text \<open>The rounded product is within \<open>1/128\<close> of the exact one.\<close>
  let ?E = "?A * ?B"
  have E0: "0 \<le> ?E" using A B by simp
  have "?E \<le> 1 * ?B" using A B by (intro mult_right_mono) simp_all
  then have E44: "?E < 2 ^ 44" using B(2) by simp
  have "\<bar>?r - ?E\<bar> \<le> ?E / 2 ^ 51" using qe ne A(1) B(1) by (rule rounded_product_err)
  also have "\<dots> < 2 ^ 44 / 2 ^ 51" using E44 by (intro divide_strict_right_mono) simp_all
  finally have "\<bar>?r - ?E\<bar> < 1 / 128" by simp
  then have near: "?E - 1 / 128 < ?r" "?r < ?E + 1 / 128" by linarith+
  text \<open>The exact product is \<open>m + f/100\<close>.\<close>
  have "p * int n = 100 * ?m + ?f" by simp
  then have "(of_int (p * int n) :: rat) = of_int (100 * ?m + ?f)" by (rule arg_cong)
  then have "(of_int p * of_nat n :: rat) = 100 * of_int ?m + of_int ?f"
    by (simp only: of_int_add of_int_mult of_int_numeral of_int_of_nat_eq)
  then have E: "?E = of_int ?m + of_int ?f / 100" by (simp add: field_simps)
  have f: "0 \<le> ?f" "?f < 100" by simp_all
  have m0: "0 \<le> ?m" using p by (simp add: pos_imp_zdiv_nonneg_iff)
  show ?thesis
  proof (cases "?f = 0")
    case True
    then have d: "100 dvd p * int n" by (simp add: dvd_eq_mod_eq_0)
    from True E have Em: "?E = of_int ?m" by simp
    from near have lo: "of_int ?m - 1 / 128 < ?r" and hi: "?r < of_int ?m + 1 / 128"
      unfolding Em by blast+
    show ?thesis
    proof (cases "of_int ?m \<le> ?r")
      case True
      from True hi have "?r < of_int ?m + 1" by linarith
      with True have "\<lfloor>?r\<rfloor> = ?m" by (rule floor_unique)
      with idx m0 show ?thesis by simp
    next
      case False
      then have "?r < of_int (?m - 1) + 1" by simp
      moreover from lo have "of_int (?m - 1) \<le> ?r" by simp
      ultimately have "\<lfloor>?r\<rfloor> = ?m - 1" by (intro floor_unique)
      moreover from r0 have "0 \<le> \<lfloor>?r\<rfloor>" by simp
      ultimately show ?thesis using idx d by simp
    qed
  next
    case False
    with f have f1: "1 \<le> ?f" "?f \<le> 99" by simp_all
    have fr: "(1::rat) \<le> of_int ?f" "(of_int ?f :: rat) \<le> 99"
    proof -
      from f1(1) have "(of_int 1 :: rat) \<le> of_int ?f" by (simp only: of_int_le_iff)
      then show "(1::rat) \<le> of_int ?f" by simp
      from f1(2) have "(of_int ?f :: rat) \<le> of_int 99" by (simp only: of_int_le_iff)
      then show "(of_int ?f :: rat) \<le> 99" by simp
    qed
    from fr have "of_int ?m + 1 / 100 \<le> ?E" "?E \<le> of_int ?m + 99 / 100"
      unfolding E by simp_all
    with near have "of_int ?m \<le> ?r" "?r < of_int ?m + 1" by linarith+
    then have "\<lfloor>?r\<rfloor> = ?m" by (rule floor_unique)
    with idx m0 show ?thesis by simp
  qed
qed

section \<open>Facts about the helpers\<close>

lemma py_getitem_in_range:
  "0 \<le> j \<Longrightarrow> j < int (length xs) \<Longrightarrow> py_getitem xs j = Inr (xs ! nat j)"
  by (simp add: py_getitem_def Let_def)

lemma map_of_count_one:
  "map_of (count_one c d) k =
     (if k = c then Some (dict_get d c 0 + 1) else map_of d k)"
  by (simp add: count_one_def update_conv')

lemma dict_get_count_one:
  "dict_get (count_one c d) k 0 = (if k = c then dict_get d c 0 + 1 else dict_get d k 0)"
  by (simp add: dict_get_def map_of_count_one)

lemma keys_count_one: "fst ` set (count_one c d) = insert c (fst ` set d)"
  by (simp add: count_one_def dom_update)

lemma distinct_count_one: "distinct (map fst d) \<Longrightarrow> distinct (map fst (count_one c d))"
  by (simp add: count_one_def distinct_update)

lemma sum_snd_update:
  "distinct (map fst d) \<Longrightarrow>
   sum_list (map snd (AList.update k v d)) + (case map_of d k of None \<Rightarrow> 0 | Some w \<Rightarrow> w)
     = sum_list (map snd d) + (v::nat)"
proof (induction d)
  case Nil
  show ?case by simp
next
  case (Cons a d)
  obtain k' w' where a: "a = (k', w')" by (cases a)
  show ?case
  proof (cases "k' = k")
    case True
    with Cons.prems a have "map_of d k = None"
      by (auto simp: map_of_eq_None_iff)
    with True a show ?thesis by simp
  next
    case False
    with Cons a show ?thesis by simp
  qed
qed

lemma sum_snd_count_one:
  "distinct (map fst d) \<Longrightarrow>
   sum_list (map snd (count_one c d)) = Suc (sum_list (map snd d))"
  using sum_snd_update [of d c "dict_get d c 0 + 1"]
  by (simp add: count_one_def dict_get_def split: option.splits)

lemma fold_count_one:
  "distinct (map fst d) \<Longrightarrow>
   distinct (map fst (fold count_one cs d)) \<and>
   fst ` set (fold count_one cs d) = set cs \<union> fst ` set d \<and>
   (\<forall>k. dict_get (fold count_one cs d) k 0 = count_list cs k + dict_get d k 0) \<and>
   sum_list (map snd (fold count_one cs d)) = length cs + sum_list (map snd d)"
proof (induction cs arbitrary: d)
  case Nil
  then show ?case by simp
next
  case (Cons c cs)
  have d': "distinct (map fst (count_one c d))"
    using Cons.prems by (rule distinct_count_one)
  from Cons.IH [OF d'] show ?case
    using Cons.prems
    by (simp add: keys_count_one dict_get_count_one sum_snd_count_one insert_commute)
qed

lemma then_py_Inr [simp]: "then_py (Inr v) f = f v"
  by (simp add: then_py_def)

lemma then_py_Inl [simp]: "then_py (Inl e) f = Inl e"
  by (simp add: then_py_def)

lemma then_py_eq_Inr: "then_py r f = Inr y \<longleftrightarrow> (\<exists>v. r = Inr v \<and> f v = Inr y)"
  by (cases r) simp_all

lemma map_of_count_status_codes:
  "map_of (count_status_codes cs) k = (if k \<in> set cs then Some (count_list cs k) else None)"
proof -
  have f: "fst ` set (count_status_codes cs) = set cs"
    "dict_get (count_status_codes cs) k 0 = count_list cs k"
    using fold_count_one [of "[]" cs] by (simp_all add: count_status_codes_def dict_get_def)
  show ?thesis
  proof (cases "k \<in> set cs")
    case True
    with f(1) obtain v where "map_of (count_status_codes cs) k = Some v"
      by (metis domD dom_map_of_conv_image_fst)
    with f(2) True show ?thesis by (simp add: dict_get_def)
  next
    case False
    with f(1) show ?thesis by (simp add: map_of_eq_None_iff)
  qed
qed

section \<open>The claims about the statistics helpers\<close>

text \<open>
  Claim C10. For every list of status codes, \<open>count_status_codes\<close> returns a dictionary
  whose keys are exactly the distinct codes of the list, each with the number of its
  occurrences, and the counts add up to the length of the list.
\<close>

theorem count_status_codes_histogram:
  "distinct (map fst (count_status_codes cs)) \<and>
   fst ` set (count_status_codes cs) = set cs \<and>
   (\<forall>k. map_of (count_status_codes cs) k =
          (if k \<in> set cs then Some (count_list cs k) else None)) \<and>
   sum_list (map snd (count_status_codes cs)) = length cs"
  using fold_count_one [of "[]" cs]
  by (simp add: map_of_count_status_codes) (simp add: count_status_codes_def)

text \<open>
  Claim C3, as stated, fails: the code takes the product \<open>p/100 * count\<close> in floating
  point, and the rounded product can fall just below the integer the exact product is.
  For fifty values and \<open>p = 58\<close> the float product is \<open>28.999999999999996\<close>, so the
  code returns the element at index 28 where the exact index is 29.
\<close>

theorem percentile_differs_from_nearest_rank:
  "percentile (map rat_of_int [1..50]) 58 = Inr 29 \<and>
   nearest_rank (map rat_of_int [1..50]) 58 = 30"
proof
  show "percentile (map rat_of_int [1..50]) 58 = Inr 29" by code_simp
  show "nearest_rank (map rat_of_int [1..50]) 58 = 30" by code_simp
qed

lemma percentile_of_index:
  assumes "data \<noteq> []" and "percentile_index (length data) p = Inr i" and "0 \<le> i"
  shows "percentile data p = Inr (sort data ! min (nat i) (length data - 1))"
proof -
  let ?n = "length data"
  have n: "0 < ?n" using assms(1) by simp
  have m: "nat (min i (int ?n - 1)) = min (nat i) (?n - 1)"
    using n assms(3) by (simp add: min_def) arith
  have "py_getitem (sort data) (min i (int ?n - 1)) = Inr (sort data ! nat (min i (int ?n - 1)))"
    using n assms(3) by (intro py_getitem_in_range) (auto simp: min_def)
  then show ?thesis using assms(2) by (simp add: percentile_def Let_def m)
qed

lemma clamped_nth_mem:
  assumes "data \<noteq> []"
  shows "sort data ! min k (length data - 1) \<in> set data"
proof -
  have n: "0 < length data" using assms by simp
  have "min k (length data - 1) \<le> length data - 1" by (rule min.cobounded2)
  with n have "min k (length data - 1) < length (sort data)" unfolding length_sort by arith
  then have "sort data ! min k (length data - 1) \<in> set (sort data)" by (rule nth_mem)
  then show ?thesis by simp
qed

lemma exact_rank: "\<lfloor>of_int p / 100 * of_nat n :: rat\<rfloor> = p * int n div 100"
proof -
  have "(of_int p / 100 * of_nat n :: rat) = of_int (p * int n) / of_int 100" by simp
  then show ?thesis by (simp only: floor_divide_of_int_eq)
qed

text \<open>
  Claim C3, amended. For every non-empty list of fewer than \<open>2^44\<close> numbers and every
  integer percentile \<open>p\<close> in \<open>[0, 100]\<close>, \<open>percentile\<close> returns the element of the
  ascending list at index \<open>min(i, count - 1)\<close>, where \<open>i\<close> is \<open>floor(p/100 * count)\<close>,
  or one less than that when \<open>p * count\<close> is a multiple of 100 (the floating-point product
  can fall just below the integer). So when \<open>p * count\<close> is not a multiple of 100 the
  result is the nearest-rank element of the specification. The result is an element of
  the list (no interpolation), and for the list 1, ..., 10 the 95th percentile is 10.
\<close>

theorem percentile_nearest_rank_up_to_rounding:
  assumes "data \<noteq> []" and "length data < 2 ^ 44" and "0 \<le> p" and "p \<le> 100"
  shows "(\<exists>i. percentile data p = Inr (sort data ! min (nat i) (length data - 1)) \<and>
              (i = \<lfloor>of_int p / 100 * of_nat (length data) :: rat\<rfloor> \<or>
               i = \<lfloor>of_int p / 100 * of_nat (length data) :: rat\<rfloor> - 1 \<and>
               100 dvd p * int (length data))) \<and>
         (\<not> 100 dvd p * int (length data) \<longrightarrow>
            percentile data p = Inr (nearest_rank data p)) \<and>
         (\<exists>v. percentile data p = Inr v \<and> v \<in> set data) \<and>
         percentile (map rat_of_int [1..10]) 95 = Inr 10"
proof -
  from percentile_index_near_exact [OF assms(3,4,2)]
  obtain i where i: "percentile_index (length data) p = Inr i" "0 \<le> i"
    "i = p * int (length data) div 100 \<or>
     i = p * int (length data) div 100 - 1 \<and> 100 dvd p * int (length data)"
    by blast
  have v: "percentile data p = Inr (sort data ! min (nat i) (length data - 1))"
    using assms(1) i(1,2) by (rule percentile_of_index)
  have a: "\<exists>i. percentile data p = Inr (sort data ! min (nat i) (length data - 1)) \<and>
              (i = \<lfloor>of_int p / 100 * of_nat (length data) :: rat\<rfloor> \<or>
               i = \<lfloor>of_int p / 100 * of_nat (length data) :: rat\<rfloor> - 1 \<and>
               100 dvd p * int (length data))"
    using v i(3) unfolding exact_rank by blast
  have b: "percentile data p = Inr (nearest_rank data p)"
    if "\<not> 100 dvd p * int (length data)"
  proof -
    from that i(3) have "i = p * int (length data) div 100" by blast
    with v show ?thesis unfolding nearest_rank_def exact_rank by (simp only:)
  qed
  have c: "\<exists>v. percentile data p = Inr v \<and> v \<in> set data"
    using v clamped_nth_mem [OF assms(1)] by blast
  have d: "percentile (map rat_of_int [1..10]) 95 = Inr 10" by code_simp
  from a b c d show ?thesis by blast
qed

theorem percentile_nearest_rank_up_to_rounding_witness:
  "[3, 1, 2 :: rat] \<noteq> [] \<and> length [3, 1, 2 :: rat] < 2 ^ 44 \<and> (0::int) \<le> 50 \<and>
   (50::int) \<le> 100 \<and> \<not> 100 dvd 50 * int (length [3, 1, 2 :: rat]) \<and>
   percentile [3, 1, 2] 50 = Inr 2"
proof -
  have h: "[3, 1, 2 :: rat] \<noteq> []" "length [3, 1, 2 :: rat] < 2 ^ 44" "(0::int) \<le> 50"
    "(50::int) \<le> 100"
    by simp_all
  have nd: "\<not> 100 dvd 50 * int (length [3, 1, 2 :: rat])" by simp
  have r: "nearest_rank [3, 1, 2] 50 = 2" by code_simp
  from percentile_nearest_rank_up_to_rounding [OF h] nd
  have "percentile [3, 1, 2] 50 = Inr (nearest_rank [3, 1, 2] 50)" by blast
  with h nd r show ?thesis by simp
qed

section \<open>The claim about the issuer\<close>

text \<open>
  Claim C8, as stated, fails: when the task is cancelled, or the run interrupted, while the
  network call waits, the exception raised is not a subclass of \<open>Exception\<close>. Neither
  handler of \<open>make_request\<close> catches it: it leaves the function and nothing is recorded.
\<close>

theorem cancelled_request_raises:
  "make_request (init ''http://h'' 1 1 None 30) 0 0 (RaiseBaseException ''CancelledError'') 1
     ''now''
     = (Inl (BaseException ''CancelledError''), init ''http://h'' 1 1 None 30)"
  by (simp add: make_request_def)

text \<open>
  Claim C8, amended. Every invocation of \<open>make_request\<close> whose network call ends in a
  response, a timeout or a failure (an exception of class \<open>Exception\<close>: connection
  refused, DNS failure, reset, protocol error) returns an outcome and raises nothing: a
  timeout is returned as an error outcome with the message \<open>Timeout\<close>, every other
  failure as an error outcome whose message is the text of the failure, a response as a
  result with its status and the length of its body; the outcome is appended to the
  errors or to the results. An invocation that is interrupted (task cancellation, keyboard
  interrupt) raises that exception and records nothing.
\<close>

theorem make_request_outcome_or_interrupt:
  "(\<not> interrupted net \<longrightarrow> (\<exists>out. fst (make_request self rid t0 net t1 stamp) = Inr out)) \<and>
   (net = RaiseTimeoutError \<longrightarrow>
      (\<exists>e. make_request self rid t0 net t1 stamp
              = (Inr (Failure e), self\<lparr>errors := errors self @ [e]\<rparr>) \<and>
           error e = ''Timeout'' \<and> request_id e = rid)) \<and>
   (\<forall>msg. net = RaiseException msg \<longrightarrow>
      (\<exists>e. make_request self rid t0 net t1 stamp
              = (Inr (Failure e), self\<lparr>errors := errors self @ [e]\<rparr>) \<and>
           error e = msg \<and> request_id e = rid)) \<and>
   (\<forall>status content. net = Response status content \<longrightarrow>
      (\<exists>r. make_request self rid t0 net t1 stamp
              = (Inr (Result r), self\<lparr>results := results self @ [r]\<rparr>) \<and>
           status_code r = status \<and> content_length r = length content \<and>
           request_id r = rid)) \<and>
   (\<forall>msg. net = RaiseBaseException msg \<longrightarrow>
      make_request self rid t0 net t1 stamp = (Inl (BaseException msg), self))"
  by (cases net) (simp_all add: make_request_def Let_def)

lemma float_sub_1_0: "float_sub 1 0 = 1"
  by code_simp

theorem make_request_outcome_or_interrupt_witness:
  "\<not> interrupted (RaiseException ''Connection refused'') \<and>
   make_request (init ''http://h'' 1 1 None 30) 0 0 (RaiseException ''Connection refused'') 1
     ''now''
     = (Inr (Failure \<lparr>request_id = 0, response_time = 1, timestamp = ''now'',
                      error = ''Connection refused''\<rparr>),
        (init ''http://h'' 1 1 None 30)
          \<lparr>errors := [\<lparr>request_id = 0, response_time = 1, timestamp = ''now'',
                        error = ''Connection refused''\<rparr>]\<rparr>)"
  using make_request_outcome_or_interrupt
    [of "RaiseException ''Connection refused''" "init ''http://h'' 1 1 None 30" 0 0 1 "''now''"]
  by (simp add: make_request_def float_sub_1_0 Let_def init_def)

section \<open>Facts about the statistics\<close>

lemma then_py_eq_Inl:
  "then_py r f = Inl e \<longleftrightarrow> r = Inl e \<or> (\<exists>v. r = Inr v \<and> f v = Inl e)"
  by (cases r) simp_all

lemma int_truediv_ratio:
  assumes "0 < b" and "a \<le> b"
  shows "int_truediv (int a) (int b) = Inr (to_double (of_nat a / of_nat b))"
proof -
  have "(of_nat a / of_nat b :: rat) \<le> 1" using assms by simp
  moreover have "(0::rat) \<le> of_nat a / of_nat b" by simp
  ultimately have "\<not> overflows (of_nat a / of_nat b)" by (intro not_overflows) simp
  then show ?thesis using assms(1) by (simp add: int_truediv_def)
qed

lemma int_truediv_no_zero_division: "b \<noteq> 0 \<Longrightarrow> int_truediv a b \<noteq> Inl ZeroDivisionError"
  by (simp add: int_truediv_def)

lemma float_of_int_100: "float_of_int 100 = 100"
  by code_simp

lemma success_rate_of_pos:
  "0 < b \<Longrightarrow> a \<le> b \<Longrightarrow>
   success_rate_of a b = Inr (to_double (to_double (of_nat a / of_nat b) * 100))"
  by (simp add: success_rate_of_def int_truediv_ratio float_mul_def float_of_int_100)

lemma success_rate_of_ok: "a \<le> b \<Longrightarrow> \<exists>v. success_rate_of a b = Inr v"
  by (cases "0 < b") (simp_all add: success_rate_of_pos, simp add: success_rate_of_def)

lemma success_rate_of_no_zero_division: "success_rate_of a b \<noteq> Inl ZeroDivisionError"
  by (auto simp: success_rate_of_def then_py_eq_Inl int_truediv_def)

lemma requests_per_second_of_ok: "\<exists>v. requests_per_second_of a t = Inr v"
  by (simp add: requests_per_second_of_def float_truediv_def)

lemma py_min_ok: "xs \<noteq> [] \<Longrightarrow> \<exists>v. py_min xs = Inr v"
  by (cases xs) simp_all

lemma py_max_ok: "xs \<noteq> [] \<Longrightarrow> \<exists>v. py_max xs = Inr v"
  by (cases xs) simp_all

lemma percentile_ok:
  assumes "xs \<noteq> []" and "length xs < 2 ^ 63" and "0 \<le> p" and "p \<le> 100"
  shows "\<exists>v. percentile xs p = Inr v"
  using percentile_of_index [OF assms(1) percentile_index_value(1) [OF assms(3,4,2)]]
    percentile_index_value(2) [OF assms(3,4,2)]
  by simp

lemma percentile_no_zero_division: "percentile xs p \<noteq> Inl ZeroDivisionError"
  by (auto simp: percentile_def percentile_index_def then_py_eq_Inl int_truediv_def
      py_getitem_def Let_def split: if_splits)

lemma calculate_statistics_empty:
  "results self = [] \<Longrightarrow> calculate_statistics mean median self = Inr None"
  by (simp add: calculate_statistics_def)

lemma calculate_statistics_some:
  assumes "results self \<noteq> []" and "length (results self) < 2 ^ 63"
    and "start_time self = Some a" and "end_time self = Some b"
  shows "\<exists>st. calculate_statistics mean median self = Inr (Some st) \<and>
              stats_total_requests st = length (results self) + length (errors self) \<and>
              successful_requests st = length (results self) \<and>
              failed_requests st = length (errors self) \<and>
              success_rate st =
                to_double (to_double (of_nat (length (results self)) /
                  of_nat (length (results self) + length (errors self))) * 100) \<and>
              status_codes st = count_status_codes (map status_code (results self))"
proof -
  let ?rt = "map response_time (results self)" and ?cl = "map content_length (results self)"
  have ne: "?rt \<noteq> []" "?cl \<noteq> []" using assms(1) by simp_all
  have len: "length ?rt < 2 ^ 63" using assms(2) by simp
  have pos: "0 < length (results self) + length (errors self)" using assms(1) by simp
  have rate: "success_rate_of (length (results self))
      (length (results self) + length (errors self))
      = Inr (to_double (to_double (of_nat (length (results self)) /
                  of_nat (length (results self) + length (errors self))) * 100))"
    using pos by (intro success_rate_of_pos) simp_all
  obtain rps where rps: "requests_per_second_of (length (results self)) (float_sub b a) = Inr rps"
    using requests_per_second_of_ok by blast
  obtain tmin tmax lmin lmax where mm: "py_min ?rt = Inr tmin" "py_max ?rt = Inr tmax"
      "py_min ?cl = Inr lmin" "py_max ?cl = Inr lmax"
    using py_min_ok [OF ne(1)] py_max_ok [OF ne(1)] py_min_ok [OF ne(2)] py_max_ok [OF ne(2)]
    by blast
  obtain q95 q99 where q: "percentile ?rt 95 = Inr q95" "percentile ?rt 99 = Inr q99"
    using percentile_ok [OF ne(1) len, of 95] percentile_ok [OF ne(1) len, of 99] by auto
  show ?thesis
    using assms rate rps mm q
    by (simp add: calculate_statistics_def time_sub_def Let_def)
qed

lemma calculate_statistics_not_none:
  "results self \<noteq> [] \<Longrightarrow> calculate_statistics mean median self \<noteq> Inr None"
  by (auto simp: calculate_statistics_def Let_def then_py_eq_Inr)

lemma calculate_statistics_no_zero_division:
  "calculate_statistics mean median self \<noteq> Inl ZeroDivisionError"
proof (cases "results self = []")
  case True
  then show ?thesis by (simp add: calculate_statistics_def)
next
  case False
  then have ne: "map response_time (results self) \<noteq> []"
    "map content_length (results self) \<noteq> []" by simp_all
  have t: "time_sub x y \<noteq> Inl ZeroDivisionError" for x y
    by (simp add: time_sub_def split: option.splits)
  have r: "requests_per_second_of k e \<noteq> Inl ZeroDivisionError" for k e
    by (simp add: requests_per_second_of_def float_truediv_def)
  show ?thesis
    using False py_min_ok [OF ne(1)] py_max_ok [OF ne(1)] py_min_ok [OF ne(2)]
      py_max_ok [OF ne(2)] t r success_rate_of_no_zero_division percentile_no_zero_division
    by (auto simp: calculate_statistics_def Let_def then_py_eq_Inl)
qed

lemma status_rows_ok:
  assumes "0 < n" and "\<forall>e\<in>set d. snd e \<le> n"
  shows "\<exists>rows. status_rows n d = Inr rows"
  using assms(2)
proof (induction d)
  case Nil
  show ?case by simp
next
  case (Cons a d)
  obtain c k where a: "a = (c, k)" by (cases a)
  from Cons obtain rows where "status_rows n d = Inr rows" by auto
  moreover from Cons.prems a have "k \<le> n" by simp
  ultimately show ?case using assms(1) a by (simp add: int_truediv_ratio)
qed

lemma count_status_codes_le:
  assumes "e \<in> set (count_status_codes cs)"
  shows "snd e \<le> length cs"
proof -
  have "snd e \<le> sum_list (map snd (count_status_codes cs))"
    using assms by (intro member_le_sum_list) simp_all
  also have "\<dots> = length cs"
    using fold_count_one [of "[]" cs] by (simp add: count_status_codes_def)
  finally show ?thesis .
qed

lemma print_report_some:
  assumes "calculate_statistics mean median self = Inr (Some st)"
    and "successful_requests st = length (results self)"
    and "status_codes st = count_status_codes (map status_code (results self))"
    and "results self \<noteq> []"
  shows "\<exists>rows. print_report mean median self = Inr (Report st rows (py_tail 10 (errors self)))"
proof -
  have "0 < successful_requests st" using assms(2,4) by simp
  moreover have "\<forall>e\<in>set (sort_key fst (status_codes st)). snd e \<le> successful_requests st"
    using count_status_codes_le [of _ "map status_code (results self)"] assms(2,3) by simp
  ultimately obtain rows where
    "status_rows (successful_requests st) (sort_key fst (status_codes st)) = Inr rows"
    using status_rows_ok by blast
  with assms(1) show ?thesis by (simp add: print_report_def)
qed

section \<open>The claims about the statistics and the reports\<close>

text \<open>
  Claim C4. \<open>calculate_statistics\<close> returns \<open>None\<close> exactly when there are no
  successes, and never raises a division by zero; its two callers, \<open>print_report\<close> and
  \<open>save_report\<close>, test for \<open>None\<close> first: the one prints only the line that says there
  was no successful request, the other returns before it opens the output file.
\<close>

theorem no_data_signalled:
  "(calculate_statistics mean median self = Inr None \<longleftrightarrow> results self = []) \<and>
   calculate_statistics mean median self \<noteq> Inl ZeroDivisionError \<and>
   (results self = [] \<longrightarrow>
      print_report mean median self = Inr NoSuccessfulRequests \<and>
      save_report mean median self output_file open_w stamp = Inr None)"
  using calculate_statistics_not_none [of self mean median]
    calculate_statistics_no_zero_division [of mean median self]
    calculate_statistics_empty [of self mean median]
  by (auto simp: print_report_def save_report_def)

theorem no_data_signalled_witness:
  "results timeouts_only = [] \<and>
   calculate_statistics py_mean py_median timeouts_only = Inr None \<and>
   print_report py_mean py_median timeouts_only = Inr NoSuccessfulRequests \<and>
   save_report py_mean py_median timeouts_only ''report.json'' Map.empty ''t'' = Inr None"
  using no_data_signalled [of py_mean py_median timeouts_only "''report.json''" Map.empty "''t''"]
  by (simp add: timeouts_only_def init_def)

text \<open>
  Claim C5, as stated, fails: for a run in which every request timed out the code makes
  no statistics at all. \<open>calculate_statistics\<close> returns \<open>None\<close>, \<open>print_report\<close>
  prints the one line that there was no successful request and \<open>save_report\<close> writes
  nothing: no report with zero-filled latency and size statistics is produced.
\<close>

theorem all_errors_no_statistics:
  "results timeouts_only = [] \<and> length (errors timeouts_only) = 3 \<and>
   calculate_statistics py_mean py_median timeouts_only = Inr None \<and>
   print_report py_mean py_median timeouts_only = Inr NoSuccessfulRequests \<and>
   save_report py_mean py_median timeouts_only ''report.json'' Map.empty ''t'' = Inr None"
  by (simp add: timeouts_only_def init_def calculate_statistics_def print_report_def
      save_report_def)

text \<open>
  Claim C5, amended. A run without a success makes no statistics: \<open>calculate_statistics\<close>
  returns \<open>None\<close>, \<open>print_report\<close> prints only the no-data line and \<open>save_report\<close>
  returns before it opens the output file, and none of them raises. A run with a success
  (fewer than \<open>2^63\<close> results, as every list has, and both clock fields set) has
  statistics and a printed report, whatever its latencies: the no-data case is a different
  value from any run that has data.
\<close>

theorem report_or_no_data:
  "(results self = [] \<longrightarrow>
      calculate_statistics mean median self = Inr None \<and>
      print_report mean median self = Inr NoSuccessfulRequests \<and>
      save_report mean median self output_file open_w stamp = Inr None) \<and>
   (results self \<noteq> [] \<and> length (results self) < 2 ^ 63 \<and>
    start_time self \<noteq> None \<and> end_time self \<noteq> None \<longrightarrow>
      (\<exists>st rows.
         calculate_statistics mean median self = Inr (Some st) \<and>
         print_report mean median self = Inr (Report st rows (py_tail 10 (errors self)))))"
proof (intro conjI impI)
  assume e: "results self = []"
  then show "calculate_statistics mean median self = Inr None"
    by (rule calculate_statistics_empty)
  then show "print_report mean median self = Inr NoSuccessfulRequests"
    "save_report mean median self output_file open_w stamp = Inr None"
    by (simp_all add: print_report_def save_report_def)
next
  assume h: "results self \<noteq> [] \<and> length (results self) < 2 ^ 63 \<and>
    start_time self \<noteq> None \<and> end_time self \<noteq> None"
  then obtain a b where ab: "start_time self = Some a" "end_time self = Some b" by auto
  from h have ne: "results self \<noteq> []" and len: "length (results self) < 2 ^ 63" by simp_all
  from calculate_statistics_some [OF ne len ab]
  obtain st where st: "calculate_statistics mean median self = Inr (Some st)"
    "successful_requests st = length (results self)"
    "status_codes st = count_status_codes (map status_code (results self))" by blast
  from print_report_some [OF st ne] st(1)
  show "\<exists>st rows.
         calculate_statistics mean median self = Inr (Some st) \<and>
         print_report mean median self = Inr (Report st rows (py_tail 10 (errors self)))"
    by blast
qed

lemma seven_of_ten_fields:
  "length (results seven_of_ten) = 7" "length (errors seven_of_ten) = 3"
  "\<forall>r\<in>set (results seven_of_ten). status_code r = 200"
  "results seven_of_ten \<noteq> []"
  "start_time seven_of_ten = Some 0" "end_time seven_of_ten = Some 31"
  by (simp_all add: seven_of_ten_def init_def)

theorem report_or_no_data_witness:
  "results timeouts_only = [] \<and>
   print_report py_mean py_median timeouts_only = Inr NoSuccessfulRequests \<and>
   results seven_of_ten \<noteq> [] \<and> length (results seven_of_ten) < 2 ^ 63 \<and>
   start_time seven_of_ten \<noteq> None \<and> end_time seven_of_ten \<noteq> None \<and>
   (\<exists>st rows. print_report py_mean py_median seven_of_ten
       = Inr (Report st rows (py_tail 10 (errors seven_of_ten))))"
proof -
  have t: "results timeouts_only = []" by (simp add: timeouts_only_def init_def)
  have s: "results seven_of_ten \<noteq> [] \<and> length (results seven_of_ten) < 2 ^ 63 \<and>
    start_time seven_of_ten \<noteq> None \<and> end_time seven_of_ten \<noteq> None"
    using seven_of_ten_fields by simp
  from report_or_no_data [of timeouts_only py_mean py_median "''r''" Map.empty "''t''"] t
  have 1: "print_report py_mean py_median timeouts_only = Inr NoSuccessfulRequests" by blast
  from report_or_no_data [of seven_of_ten py_mean py_median "''r''" Map.empty "''t''"] s
  have 2: "\<exists>st rows. print_report py_mean py_median seven_of_ten
       = Inr (Report st rows (py_tail 10 (errors seven_of_ten)))" by blast
  from t s 1 2 show ?thesis by blast
qed

lemma all_same_replicate: "(\<forall>x\<in>set xs. f x = c) \<Longrightarrow> map f xs = replicate (length xs) c"
  by (induction xs) simp_all

lemma histogram_7: "count_status_codes (replicate 7 200) = [(200, 7)]"
  by code_simp

lemma rate_7_10: "to_double (to_double (7 / 10) * 100) = 70"
  by code_simp

lemma success_rate_err:
  fixes x :: rat
  assumes "0 \<le> x"
  shows "\<bar>to_double (to_double x * 100) - x * 100\<bar> \<le> x * 100 / 2 ^ 51"
proof -
  have a: "\<bar>to_double x - x\<bar> \<le> x / 2 ^ 53" using to_double_err [of x] assms by simp
  have b: "\<bar>(100::rat) - 100\<bar> \<le> 100 / 2 ^ 53" by simp
  from rounded_product_err [OF a b assms] show ?thesis by simp
qed

text \<open>
  Claim C7, as stated, fails on the snapshots without a success: the code computes no
  statistics for them. With three timeouts and no success, and with no request at all,
  \<open>calculate_statistics\<close> returns \<open>None\<close>: there is no record with
  \<open>total_requests = 3\<close> or with \<open>success_rate = 0\<close>. And where statistics are computed
  the success rate is the floating-point value: for 29 successes of 50 it is
  \<open>57.99999999999999\<close>, not 58.
\<close>

theorem no_statistics_without_success:
  "calculate_statistics py_mean py_median timeouts_only = Inr None \<and>
   length (results timeouts_only) + length (errors timeouts_only) = 3 \<and>
   calculate_statistics py_mean py_median (init ''http://host'' 5 3 None 30) = Inr None \<and>
   success_rate_of 29 50 = Inr (8162774324609023 / 140737488355328)"
proof -
  have "success_rate_of 29 50 = Inr (8162774324609023 / 140737488355328)" by code_simp
  then show ?thesis
    by (simp add: timeouts_only_def init_def calculate_statistics_def)
qed

text \<open>
  Claim C7, amended. For every final snapshot with at least one success (fewer than
  \<open>2^63\<close> successes, as every list has, and both clock fields set) statistics are
  computed, with \<open>total_requests\<close> the number of successes plus the number of errors,
  \<open>successful_requests\<close> and \<open>failed_requests\<close> the two numbers, and \<open>success_rate\<close>
  the floating-point value of \<open>(successes / total_requests) * 100\<close>, each operation
  rounded, which is within the relative error \<open>2^-51\<close> of the exact percentage. Seven
  successes with status 200 and three timeouts give a success rate of exactly 70, three
  failed requests and the histogram \<open>{200: 7}\<close>. For a snapshot without a success, that
  of zero requests included, no statistics are computed: the result is \<open>None\<close>.
\<close>

theorem statistics_totals:
  "(results self \<noteq> [] \<and> length (results self) < 2 ^ 63 \<and>
    start_time self \<noteq> None \<and> end_time self \<noteq> None \<longrightarrow>
      (\<exists>st. calculate_statistics mean median self = Inr (Some st) \<and>
         stats_total_requests st = length (results self) + length (errors self) \<and>
         successful_requests st = length (results self) \<and>
         failed_requests st = length (errors self) \<and>
         success_rate st =
           to_double (to_double (of_nat (successful_requests st) /
                                 of_nat (stats_total_requests st)) * 100) \<and>
         \<bar>success_rate st -
            of_nat (successful_requests st) / of_nat (stats_total_requests st) * 100\<bar>
           \<le> of_nat (successful_requests st) / of_nat (stats_total_requests st) * 100 / 2 ^ 51 \<and>
         status_codes st = count_status_codes (map status_code (results self)) \<and>
         (length (results self) = 7 \<and> (\<forall>r\<in>set (results self). status_code r = 200) \<and>
          length (errors self) = 3 \<longrightarrow>
            success_rate st = 70 \<and> failed_requests st = 3 \<and> status_codes st = [(200, 7)]))) \<and>
   (results self = [] \<longrightarrow> calculate_statistics mean median self = Inr None)"
proof (intro conjI impI)
  assume "results self = []"
  then show "calculate_statistics mean median self = Inr None"
    by (rule calculate_statistics_empty)
next
  assume h: "results self \<noteq> [] \<and> length (results self) < 2 ^ 63 \<and>
    start_time self \<noteq> None \<and> end_time self \<noteq> None"
  then obtain a b where ab: "start_time self = Some a" "end_time self = Some b" by auto
  from h have ne: "results self \<noteq> []" and len: "length (results self) < 2 ^ 63" by simp_all
  let ?s = "length (results self)" and ?t = "length (results self) + length (errors self)"
  from calculate_statistics_some [OF ne len ab]
  obtain st where st: "calculate_statistics mean median self = Inr (Some st)"
    and f: "stats_total_requests st = ?t" "successful_requests st = ?s"
      "failed_requests st = length (errors self)"
      "success_rate st = to_double (to_double (of_nat ?s / of_nat ?t) * 100)"
      "status_codes st = count_status_codes (map status_code (results self))"
    by blast
  have err: "\<bar>success_rate st - of_nat ?s / of_nat ?t * 100\<bar>
      \<le> of_nat ?s / of_nat ?t * 100 / 2 ^ 51"
    unfolding f(4) by (rule success_rate_err) simp
  have ex: "success_rate st = 70 \<and> failed_requests st = 3 \<and> status_codes st = [(200, 7)]"
    if e: "length (results self) = 7 \<and> (\<forall>r\<in>set (results self). status_code r = 200) \<and>
          length (errors self) = 3"
  proof -
    from e have e1: "?s = 7" and e2: "\<forall>r\<in>set (results self). status_code r = 200"
      and e3: "length (errors self) = 3" by simp_all
    have "map status_code (results self) = replicate 7 200"
      using all_same_replicate [OF e2] e1 by simp
    then have "status_codes st = [(200, 7)]" using f(5) histogram_7 by simp
    moreover have "success_rate st = 70" using f(4) e1 e3 rate_7_10 by simp
    ultimately show ?thesis using f(3) e3 by simp
  qed
  have f4: "success_rate st =
      to_double (to_double (of_nat (successful_requests st) /
                            of_nat (stats_total_requests st)) * 100)"
    unfolding f(1) f(2) by (rule f(4))
  have err': "\<bar>success_rate st -
      of_nat (successful_requests st) / of_nat (stats_total_requests st) * 100\<bar>
      \<le> of_nat (successful_requests st) / of_nat (stats_total_requests st) * 100 / 2 ^ 51"
    unfolding f(1) f(2) by (rule err)
  have "calculate_statistics mean median self = Inr (Some st) \<and>
         stats_total_requests st = length (results self) + length (errors self) \<and>
         successful_requests st = length (results self) \<and>
         failed_requests st = length (errors self) \<and>
         success_rate st =
           to_double (to_double (of_nat (successful_requests st) /
                                 of_nat (stats_total_requests st)) * 100) \<and>
         \<bar>success_rate st -
            of_nat (successful_requests st) / of_nat (stats_total_requests st) * 100\<bar>
           \<le> of_nat (successful_requests st) / of_nat (stats_total_requests st) * 100 / 2 ^ 51 \<and>
         status_codes st = count_status_codes (map status_code (results self)) \<and>
         (length (results self) = 7 \<and> (\<forall>r\<in>set (results self). status_code r = 200) \<and>
          length (errors self) = 3 \<longrightarrow>
            success_rate st = 70 \<and> failed_requests st = 3 \<and> status_codes st = [(200, 7)])"
    using st f(1,2,3,5) f4 err' ex by blast
  then show "\<exists>st. calculate_statistics mean median self = Inr (Some st) \<and>
         stats_total_requests st = length (results self) + length (errors self) \<and>
         successful_requests st = length (results self) \<and>
         failed_requests st = length (errors self) \<and>
         success_rate st =
           to_double (to_double (of_nat (successful_requests st) /
                                 of_nat (stats_total_requests st)) * 100) \<and>
         \<bar>success_rate st -
            of_nat (successful_requests st) / of_nat (stats_total_requests st) * 100\<bar>
           \<le> of_nat (successful_requests st) / of_nat (stats_total_requests st) * 100 / 2 ^ 51 \<and>
         status_codes st = count_status_codes (map status_code (results self)) \<and>
         (length (results self) = 7 \<and> (\<forall>r\<in>set (results self). status_code r = 200) \<and>
          length (errors self) = 3 \<longrightarrow>
            success_rate st = 70 \<and> failed_requests st = 3 \<and> status_codes st = [(200, 7)])"
    by (rule exI)
qed

theorem statistics_totals_witness:
  "results seven_of_ten \<noteq> [] \<and> length (results seven_of_ten) < 2 ^ 63 \<and>
   start_time seven_of_ten \<noteq> None \<and> end_time seven_of_ten \<noteq> None \<and>
   (\<exists>st. calculate_statistics py_mean py_median seven_of_ten = Inr (Some st) \<and>
        stats_total_requests st = 10 \<and> success_rate st = 70 \<and> failed_requests st = 3 \<and>
        status_codes st = [(200, 7)]) \<and>
   results timeouts_only = [] \<and>
   calculate_statistics py_mean py_median timeouts_only = Inr None"
proof -
  have s: "results seven_of_ten \<noteq> [] \<and> length (results seven_of_ten) < 2 ^ 63 \<and>
    start_time seven_of_ten \<noteq> None \<and> end_time seven_of_ten \<noteq> None"
    using seven_of_ten_fields by simp
  have t: "results timeouts_only = []" by (simp add: timeouts_only_def init_def)
  from statistics_totals [of seven_of_ten py_mean py_median] s seven_of_ten_fields(1,2,3)
  have 1: "\<exists>st. calculate_statistics py_mean py_median seven_of_ten = Inr (Some st) \<and>
        stats_total_requests st = 10 \<and> success_rate st = 70 \<and> failed_requests st = 3 \<and>
        status_codes st = [(200, 7)]"
    by (simp only: simp_thms) auto
  from statistics_totals [of timeouts_only py_mean py_median] t
  have 2: "calculate_statistics py_mean py_median timeouts_only = Inr None" by blast
  from s t 1 2 show ?thesis by blast
qed

end
